theory Spec2Isabelle
  imports Complex_Main "HOL-Library.Sublist"
begin

section \<open>Python strings\<close>

text \<open>
  A Python \<open>str\<close> is modelled by \<open>string\<close>, one \<open>char\<close> for each code point; the
  model covers the code points below 256. On these, \<open>str.lower\<close> maps A-Z and the
  upper-case letters 192-222 (except the multiplication sign 215) to the code point 32
  above, and \<open>str.isspace\<close> holds of 9-13, 28-32, 133 and 160.
\<close>

definition py_isspace :: "char \<Rightarrow> bool" where
  "py_isspace c =
     (let n = (of_char c :: nat)
      in (9 \<le> n \<and> n \<le> 13) \<or> (28 \<le> n \<and> n \<le> 32) \<or> n = 133 \<or> n = 160)"

definition lower_char :: "char \<Rightarrow> char" where
  "lower_char c =
     (let n = (of_char c :: nat)
      in if (65 \<le> n \<and> n \<le> 90) \<or> (192 \<le> n \<and> n \<le> 222 \<and> n \<noteq> 215)
         then char_of (n + 32) else c)"

text \<open>\<open>s.lower()\<close>, \<open>s.strip()\<close> and \<open>s.strip(chars)\<close>.\<close>

definition py_lower :: "string \<Rightarrow> string" where
  "py_lower s = map lower_char s"

definition py_strip :: "string \<Rightarrow> string" where
  "py_strip s = rev (dropWhile py_isspace (rev (dropWhile py_isspace s)))"

definition py_strip_chars :: "string \<Rightarrow> string \<Rightarrow> string" where
  "py_strip_chars chars s =
     rev (dropWhile (\<lambda>c. c \<in> set chars) (rev (dropWhile (\<lambda>c. c \<in> set chars) s)))"

text \<open>
  \<open>s.split()\<close>: the maximal runs of characters that are not whitespace. The first
  argument of \<open>split_from\<close> is the word read so far.
\<close>

fun split_from :: "string \<Rightarrow> string \<Rightarrow> string list" where
  "split_from w [] = (if w = [] then [] else [w])"
| "split_from w (c # cs) =
     (if py_isspace c then (if w = [] then split_from [] cs else w # split_from [] cs)
      else split_from (w @ [c]) cs)"

definition py_split :: "string \<Rightarrow> string list" where
  "py_split s = split_from [] s"

text \<open>\<open>s.split(sep)\<close> for a separator of one character: empty pieces are kept.\<close>

fun split_on :: "char \<Rightarrow> string \<Rightarrow> string list" where
  "split_on sep [] = [[]]"
| "split_on sep (c # cs) =
     (if c = sep then [] # split_on sep cs
      else (case split_on sep cs of [] \<Rightarrow> [[c]] | w # ws \<Rightarrow> (c # w) # ws))"

text \<open>\<open>sub in s\<close>: a scan for the first position where \<open>sub\<close> is a prefix.\<close>

fun py_in :: "string \<Rightarrow> string \<Rightarrow> bool" where
  "py_in sub [] = (sub = [])"
| "py_in sub (c # cs) = (prefix sub (c # cs) \<or> py_in sub cs)"

text \<open>\<open>sep.join(parts)\<close> and \<open>str(n)\<close> for a natural number.\<close>

fun py_join :: "string \<Rightarrow> string list \<Rightarrow> string" where
  "py_join sep [] = []"
| "py_join sep [x] = x"
| "py_join sep (x # y # ys) = x @ sep @ py_join sep (y # ys)"

fun str_nat :: "nat \<Rightarrow> string" where
  "str_nat n =
     (if n < 10 then [char_of (48 + n)]
      else str_nat (n div 10) @ [char_of (48 + n mod 10)])"

abbreviation NL :: char where
  "NL \<equiv> CHR 0x0A"

abbreviation APOS :: char where
  "APOS \<equiv> CHR 0x27"

section \<open>Retrieved chunks\<close>

text \<open>
  The vector search collaborators (\<open>KnowledgeBaseService.search\<close>,
  \<open>AgentService.search_agent\<close>) return a list of dictionaries with the keys
  \<open>text\<close>, \<open>metadata\<close>, \<open>similarity_score\<close> and \<open>rank\<close>. The chat service reads
  every key with \<open>dict.get\<close> and a default, so a key may be absent: each field of the
  record is an option, \<open>None\<close> standing for the absent key.

  A \<open>float\<close> of the program is modelled by the real number that its shortest decimal
  representation (Python's \<open>repr\<close>) denotes: the literal \<open>0.8\<close> is the real 0.8, the float
  printed as 0.7999999999999999 is that real. This map keeps the order of the floats, so a
  comparison of floats is the comparison of their reals.

  The sum and the quotient of floats are rounded, and how \<open>sum\<close> rounds depends on the
  version of Python (one addition after the other before 3.12, a compensated sum from
  3.12 on). The model does not fix them: \<open>float_sum\<close> stands for \<open>sum(xs)\<close> over floats and
  \<open>float_div x n\<close> for \<open>x / n\<close> with a float \<open>x\<close> and an integer \<open>n\<close>, and both are parameters.
\<close>

record float_arith =
  float_sum :: "real list \<Rightarrow> real"
  float_div :: "real \<Rightarrow> nat \<Rightarrow> real"

record metadata =
  filename :: "string option"
  source :: "string option"
  upload_time :: "string option"

record chunk =
  chunk_text :: "string option"
  similarity_score :: "real option"
  chunk_metadata :: "metadata option"
  rank :: nat

text \<open>\<open>chunk.get('similarity_score', 0)\<close> and \<open>chunk.get('text', '')\<close>.\<close>

definition get_similarity_score :: "chunk \<Rightarrow> real" where
  "get_similarity_score c = (case similarity_score c of None \<Rightarrow> 0 | Some s \<Rightarrow> s)"

definition get_text :: "chunk \<Rightarrow> string" where
  "get_text c = (case chunk_text c of None \<Rightarrow> [] | Some t \<Rightarrow> t)"

section \<open>Confidence Evaluator\<close>

text \<open>
  The dictionary returned by \<open>_evaluate_kb_confidence\<close>. The early return for an empty
  chunk list carries only the first three keys; the other three are options.
\<close>

record confidence_assessment =
  confidence :: real
  should_search_web :: bool
  reason :: string
  avg_similarity :: "real option"
  high_confidence_chunks :: "nat option"
  total_context_length :: "nat option"

text \<open>The three quantities the function computes before the cascade.\<close>

definition avg_similarity_of :: "float_arith \<Rightarrow> chunk list \<Rightarrow> real" where
  "avg_similarity_of fa chunks =
     float_div fa (float_sum fa (map get_similarity_score chunks)) (length chunks)"

definition high_confidence_chunks_of :: "chunk list \<Rightarrow> chunk list" where
  "high_confidence_chunks_of chunks = filter (\<lambda>c. get_similarity_score c \<ge> 0.8) chunks"

definition total_text_length_of :: "chunk list \<Rightarrow> nat" where
  "total_text_length_of chunks = sum_list (map (\<lambda>c. length (get_text c)) chunks)"

definition evaluate_kb_confidence ::
  "float_arith \<Rightarrow> chunk list \<Rightarrow> string \<Rightarrow> confidence_assessment"
where
  "evaluate_kb_confidence fa chunks query =
     (if chunks = [] then
        \<lparr>confidence = 0.0, should_search_web = True, reason = ''no_kb_results'',
         avg_similarity = None, high_confidence_chunks = None,
         total_context_length = None\<rparr>
      else
        let avg = avg_similarity_of fa chunks;
            high = high_confidence_chunks_of chunks;
            total = total_text_length_of chunks;
            (c, w, r) =
              (if avg \<ge> 0.8 \<and> length high \<ge> 2 then
                 (0.9, False, ''high_confidence_kb_match'')
               else if avg \<ge> 0.6 \<and> total \<ge> 500 then
                 (0.7, False, ''sufficient_kb_context'')
               else if avg \<ge> 0.4 then
                 (0.5, True, ''moderate_kb_match_needs_web'')
               else
                 (0.2, True, ''low_kb_confidence''))
        in \<lparr>confidence = c, should_search_web = w, reason = r,
            avg_similarity = Some avg, high_confidence_chunks = Some (length high),
            total_context_length = Some total\<rparr>)"

text \<open>The decision of an assessment: the three keys every path returns.\<close>

definition decision :: "confidence_assessment \<Rightarrow> real \<times> bool \<times> string" where
  "decision a = (confidence a, should_search_web a, reason a)"

section \<open>Query Analyzer\<close>

record query_analysis =
  complexity :: string
  optimal_chunks :: nat
  technical_score :: nat
  specificity_score :: nat
  word_count :: nat

definition technical_keywords :: "string list" where
  "technical_keywords =
     [''how'', ''why'', ''what'', ''when'', ''where'', ''troubleshoot'', ''error'',
      ''problem'', ''issue'', ''configure'', ''install'', ''setup'']"

definition specific_terms :: "string list" where
  "specific_terms =
     [''api'', ''database'', ''server'', ''configuration'', ''authentication'',
      ''deployment'', ''integration'']"

text \<open>
  \<open>sum(1 for keyword in keywords if keyword in query_lower)\<close>: the number of keywords
  of the list that occur in the text.
\<close>

definition count_matches :: "string list \<Rightarrow> string \<Rightarrow> nat" where
  "count_matches keywords s = length (filter (\<lambda>keyword. py_in keyword s) keywords)"

definition analyze_query_complexity :: "string \<Rightarrow> query_analysis" where
  "analyze_query_complexity query =
     (let query_lower = py_strip (py_lower query);
          ts = count_matches technical_keywords query_lower;
          sp = count_matches specific_terms query_lower;
          wc = length (py_split query);
          (cx, k) =
            (if wc \<le> 3 \<and> ts = 0 then (''simple'', 3)
             else if wc \<le> 8 \<and> ts \<le> 2 then (''moderate'', 5)
             else (''complex'', 8))
      in \<lparr>complexity = cx, optimal_chunks = k, technical_score = ts,
          specificity_score = sp, word_count = wc\<rparr>)"

subsection \<open>The words of the specification\<close>

text \<open>
  Whitespace tokenization counts the positions where a word starts: a character that is
  not whitespace, at the start of the text or right after a whitespace character.
\<close>

definition word_starts :: "string \<Rightarrow> nat set" where
  "word_starts s =
     {i. i < length s \<and> \<not> py_isspace (s ! i) \<and> (i = 0 \<or> py_isspace (s ! (i - 1)))}"

text \<open>
  A keyword matches a text case-insensitively when some contiguous part of the text is
  the keyword up to the case of its letters.
\<close>

definition ci_substring :: "string \<Rightarrow> string \<Rightarrow> bool" where
  "ci_substring keyword s =
     (\<exists>before part after. s = before @ part @ after \<and> py_lower part = py_lower keyword)"

section \<open>Relevance Gate\<close>

record web_link =
  title :: string
  url :: string
  snippet :: string

text \<open>
  The dictionary of web results. \<open>_search_web\<close> builds it with the keys \<open>text\<close> and
  \<open>links\<close>; its readers use \<open>dict.get\<close>, so each key is an option here. The argument of
  the Relevance Gate may also be \<open>None\<close>.
\<close>

record web_results =
  web_text :: "string option"
  links :: "web_link list option"

definition web_keywords :: "string list" where
  "web_keywords =
     [''search online'', ''search web'', ''find online'', ''look up online'',
      ''google'', ''internet'', ''website'', ''url'', ''link'', ''online'',
      ''current'', ''latest'', ''recent'', ''new'', ''updated'', ''today'',
      ''official website'', ''manufacturer website'', ''download'',
      ''buy'', ''purchase'', ''price'', ''cost'', ''where to buy'']"

text \<open>
  The four regular expressions of \<open>product_patterns\<close>: a product code, "model X",
  "part number" and "serial number". The regular expression engine is a parameter of the
  model: \<open>re_search p s\<close> stands for \<open>re.search(p, s, re.IGNORECASE)\<close> finding a match.
\<close>

datatype product_pattern = ProductCode | ModelWord | PartNumber | SerialNumber

definition product_patterns :: "product_pattern list" where
  "product_patterns = [ProductCode, ModelWord, PartNumber, SerialNumber]"

text \<open>\<open>not web_results or not web_results.get('links')\<close>.\<close>

definition no_web_links :: "web_results option \<Rightarrow> bool" where
  "no_web_links web =
     (case web of
        None \<Rightarrow> True
      | Some w \<Rightarrow>
          (web_text w = None \<and> links w = None) \<or>
          (case links w of None \<Rightarrow> True | Some ls \<Rightarrow> ls = []))"

definition relevance_score :: "string \<Rightarrow> web_results option \<Rightarrow> real" where
  "relevance_score message_lower web =
     (let web_text_lower =
            py_lower (case web of None \<Rightarrow> []
                      | Some w \<Rightarrow> (case web_text w of None \<Rightarrow> [] | Some t \<Rightarrow> t));
          message_keywords =
            map (py_strip_chars ''.,?!'')
              (filter (\<lambda>word. length word > 3) (py_split message_lower));
          keyword_matches =
            length (filter (\<lambda>keyword. py_in keyword web_text_lower) message_keywords)
      in real keyword_matches / real (max (length message_keywords) 1))"

definition should_include_web_links ::
  "(product_pattern \<Rightarrow> string \<Rightarrow> bool) \<Rightarrow> string \<Rightarrow> string \<Rightarrow> web_results option \<Rightarrow> bool"
where
  "should_include_web_links re_search message kb_context web =
     (if no_web_links web then False
      else
        let message_lower = py_lower message
        in if list_ex (\<lambda>keyword. py_in keyword message_lower) web_keywords then True
           else if kb_context = [] \<or> length (py_strip kb_context) < 100 then True
           else if list_ex (\<lambda>pattern. re_search pattern message) product_patterns
                   \<and> length (py_strip kb_context) < 300 then True
           else relevance_score message_lower web > 0.5)"

section \<open>Retrieval Cache\<close>

text \<open>
  \<open>self._query_cache\<close> is a Python dictionary, which keeps its keys in the order of their
  insertion: an association list, the earliest key first. The state of the service holds
  the cache and the log of the calls made to the vector search collaborators. The
  retrieval depth \<open>top_k\<close> is a natural number, and the calls of the service follow one
  another: the interleaving of coroutines at an \<open>await\<close> is not part of the model.
\<close>

datatype search_call =
  AgentSearch string string nat "string option"
| KnowledgeBaseSearch string nat

record service_state =
  query_cache :: "(string \<times> chunk list) list"
  search_log :: "search_call list"

text \<open>
  The vector search collaborator: \<open>agent_service.search_agent\<close> or
  \<open>knowledge_base.search\<close>. Its answer may change from call to call, so it reads the log
  of the earlier calls; it may raise.
\<close>

datatype exn = Error string

type_synonym vector_search = "search_call list \<Rightarrow> search_call \<Rightarrow> exn + chunk list"

text \<open>
  Both collaborators of the repository wrap the round trip to the embedding provider and
  the vector index in \<open>try: ... except Exception: return []\<close>: whatever the external
  round trip \<open>ext\<close> does, they return a list.
\<close>

definition search_collaborator :: "vector_search \<Rightarrow> vector_search" where
  "search_collaborator ext calls call =
     (case ext calls call of Inl e \<Rightarrow> Inr [] | Inr search_results \<Rightarrow> Inr search_results)"

definition cache_max_size :: nat where
  "cache_max_size = 100"

definition confidence_threshold :: real where
  "confidence_threshold = 0.3"

definition initial_state :: service_state where
  "initial_state = \<lparr>query_cache = [], search_log = []\<rparr>"

definition clear_cache :: "service_state \<Rightarrow> service_state" where
  "clear_cache s = s\<lparr>query_cache := []\<rparr>"

text \<open>\<open>d[k] = v\<close>: a key of the dictionary keeps its place, a new key goes last.\<close>

fun dict_set :: "('k \<times> 'v) list \<Rightarrow> 'k \<Rightarrow> 'v \<Rightarrow> ('k \<times> 'v) list" where
  "dict_set [] k v = [(k, v)]"
| "dict_set ((k', v') # d) k v =
     (if k' = k then (k, v) # d else (k', v') # dict_set d k v)"

text \<open>\<open>agent_id or 'global'\<close>, and the truth value of \<open>agent_id\<close>.\<close>

definition scope_of :: "string option \<Rightarrow> string" where
  "scope_of agent_id =
     (case agent_id of None \<Rightarrow> ''global'' | Some a \<Rightarrow> if a = [] then ''global'' else a)"

definition depth_of :: "string \<Rightarrow> nat option \<Rightarrow> nat" where
  "depth_of query top_k =
     (case top_k of None \<Rightarrow> optimal_chunks (analyze_query_complexity query) | Some k \<Rightarrow> k)"

definition cache_key_of :: "string option \<Rightarrow> string \<Rightarrow> nat \<Rightarrow> string" where
  "cache_key_of agent_id query k =
     scope_of agent_id @ '':'' @ py_strip (py_lower query) @ '':'' @ str_nat k"

definition search_call_of :: "string option \<Rightarrow> string \<Rightarrow> nat \<Rightarrow> string option \<Rightarrow> search_call" where
  "search_call_of agent_id query k user_id =
     (case agent_id of
        None \<Rightarrow> KnowledgeBaseSearch query k
      | Some a \<Rightarrow> if a = [] then KnowledgeBaseSearch query k else AgentSearch a query k user_id)"

text \<open>
  \<open>_search_knowledge_base\<close>. A hit returns the cached list. A miss calls the
  collaborator; when that raises, the handler returns the empty list and stores nothing.
  Otherwise the results are filtered, the oldest entry is deleted when the cache holds
  \<open>cache_max_size\<close> entries or more, and the filtered list is stored and returned.
\<close>

definition search_knowledge_base ::
  "vector_search \<Rightarrow> service_state \<Rightarrow> string \<Rightarrow> string option \<Rightarrow> nat option \<Rightarrow> string option
     \<Rightarrow> chunk list \<times> service_state"
where
  "search_knowledge_base vs s query agent_id top_k user_id =
     (let k = depth_of query top_k;
          cache_key = cache_key_of agent_id query k
      in case map_of (query_cache s) cache_key of
           Some cached \<Rightarrow> (cached, s)
         | None \<Rightarrow>
             let call = search_call_of agent_id query k user_id;
                 s1 = s\<lparr>search_log := search_log s @ [call]\<rparr>
             in case vs (search_log s) call of
                  Inl e \<Rightarrow> ([], s1)
                | Inr results \<Rightarrow>
                    let filtered_results =
                          filter (\<lambda>r. get_similarity_score r \<ge> confidence_threshold) results;
                        cache1 =
                          (if length (query_cache s1) \<ge> cache_max_size
                           then tl (query_cache s1) else query_cache s1)
                    in (filtered_results,
                        s1\<lparr>query_cache := dict_set cache1 cache_key filtered_results\<rparr>))"

text \<open>
  The states the service can be in: it starts with an empty cache, and only
  \<open>_search_knowledge_base\<close> and \<open>clear_cache\<close> write the cache.
\<close>

inductive reachable :: "vector_search \<Rightarrow> service_state \<Rightarrow> bool" for vs :: vector_search where
  reachable_init: "reachable vs initial_state"
| reachable_search:
    "reachable vs s \<Longrightarrow>
     reachable vs (snd (search_knowledge_base vs s query agent_id top_k user_id))"
| reachable_clear: "reachable vs s \<Longrightarrow> reachable vs (clear_cache s)"

section \<open>Context Assembler, fallback answer and sources\<close>

definition get_filename :: "chunk \<Rightarrow> string" where
  "get_filename c =
     (case chunk_metadata c of
        None \<Rightarrow> ''Unknown''
      | Some m \<Rightarrow> (case filename m of None \<Rightarrow> ''Unknown'' | Some f \<Rightarrow> f))"

text \<open>\<open>f"\n[Source {i}: {filename}]\n{text}\n"\<close> for one chunk.\<close>

definition source_block :: "nat \<times> chunk \<Rightarrow> string" where
  "source_block ic =
     [NL] @ ''[Source '' @ str_nat (fst ic) @ '': '' @ get_filename (snd ic) @ '']'' @ [NL]
       @ py_strip (get_text (snd ic)) @ [NL]"

definition build_context :: "chunk list \<Rightarrow> web_results option \<Rightarrow> string" where
  "build_context chunks web =
     (let doc_parts =
            (if chunks \<noteq> [] then
               [''Technical Documentation:'' @ [NL]
                  @ concat (map source_block (enumerate 1 (take 3 chunks)))]
             else []);
          web_parts =
            (case web of
               None \<Rightarrow> []
             | Some w \<Rightarrow>
                 (case web_text w of
                    None \<Rightarrow> []
                  | Some t \<Rightarrow> if t = [] then [] else [''Web Search Results:'' @ [NL] @ t]))
      in py_join [NL, NL] (doc_parts @ web_parts))"

text \<open>\<open>f"{i}. [{link['title']}]({link['url']})\n"\<close> for each link, numbered from 1.\<close>

definition link_line :: "nat \<times> web_link \<Rightarrow> string" where
  "link_line il =
     str_nat (fst il) @ ''. ['' @ title (snd il) @ ''](''  @ url (snd il) @ '')'' @ [NL]"

definition link_lines :: "web_link list \<Rightarrow> string" where
  "link_lines ls = concat (map link_line (enumerate 1 ls))"

definition generate_fallback_response :: "string \<Rightarrow> string \<Rightarrow> web_link list \<Rightarrow> string" where
  "generate_fallback_response context query web_links =
     (if context \<noteq> [] then
        let lines = take 5 (split_on NL context);
            summary = take 300 (py_strip (py_join '' '' lines))
        in ''Here'' @ [APOS] @ ''s what I found: '' @ summary @ ''...''
           @ (if web_links \<noteq> [] then
                [NL, NL] @ ''**Helpful Links:**'' @ [NL] @ link_lines (take 2 web_links)
              else [])
           @ [NL] @ ''(Note: LLM service temporarily unavailable - showing raw data)''
      else
        ''I couldn'' @ [APOS] @ ''t find specific documentation for '' @ [APOS] @ query
          @ [APOS] @ ''. ''
          @ (if web_links \<noteq> [] then
               ''However, I found these helpful resources:'' @ [NL, NL]
                 @ link_lines (take 3 web_links) @ [NL]
                 @ ''Try these links or upload relevant technical manuals for more specific help.''
             else ''Try uploading relevant technical manuals or rephrasing your question.''))"

text \<open>
  The entries of the source list: a document source or a web link. \<open>round(x, 3)\<close> is
  modelled on the reals, ties going to the even neighbour.
\<close>

datatype source_entry =
  DocumentSource string real string string
| WebLinkSource string string string

definition round3 :: "real \<Rightarrow> real" where
  "round3 x =
     (let y = x * 1000; f = \<lfloor>y\<rfloor>; d = y - of_int f
      in of_int (if d < 1/2 then f else if d > 1/2 then f + 1
                 else if even f then f else f + 1) / 1000)"

fun document_sources :: "string list \<Rightarrow> chunk list \<Rightarrow> source_entry list" where
  "document_sources seen_files [] = []"
| "document_sources seen_files (c # cs) =
     (let fname = get_filename c in
      if fname \<noteq> ''Unknown'' \<and> fname \<notin> set seen_files then
        DocumentSource fname (round3 (get_similarity_score c))
          (case chunk_metadata c of None \<Rightarrow> ''document''
           | Some m \<Rightarrow> (case source m of None \<Rightarrow> ''document'' | Some x \<Rightarrow> x))
          (case chunk_metadata c of None \<Rightarrow> ''unknown''
           | Some m \<Rightarrow> (case upload_time m of None \<Rightarrow> ''unknown'' | Some x \<Rightarrow> x))
          # document_sources (fname # seen_files) cs
      else document_sources seen_files cs)"

definition extract_sources :: "chunk list \<Rightarrow> web_link list \<Rightarrow> source_entry list" where
  "extract_sources chunks web_links =
     document_sources [] (take 3 chunks)
       @ map (\<lambda>link. WebLinkSource (title link) (url link) (snippet link)) (take 3 web_links)"

section \<open>Answer Orchestrator\<close>

record chat_response =
  response :: string
  sources :: "source_entry list"
  chunks_found :: nat

text \<open>A row of the conversation store, and an exchange of the conversation history.\<close>

record message =
  sender :: "string option"
  msg_text :: "string option"

record history_entry =
  h_message :: string
  h_response :: string

record agent =
  extra_instructions :: "string option"

text \<open>
  The prompt is a fixed template with six holes; the model passes the language model the
  six strings that fill them.
\<close>

record llm_prompt =
  prompt_context :: string
  prompt_links_text :: string
  prompt_history_context :: string
  prompt_agent_instructions :: string
  prompt_message :: string
  prompt_link_guidance :: string

text \<open>
  The steps \<open>get_response\<close> awaits and the services behind them: the vector search,
  \<open>get_conversation_history\<close> (the conversation store), \<open>_search_web\<close> (the web search
  provider, with the flag that a web search tool is configured), the language model and
  the agent registry (each absent when not configured), and the regular expression engine.
  Their outcomes are parameters of the model, and so is the floating-point arithmetic of
  the Confidence Evaluator. An awaited step returns a sum: the model lets each of them
  raise, also where the implementation in the repository catches its own exceptions, so
  that both handlers of \<open>get_response\<close> have a step to catch.
\<close>

record env =
  arith :: float_arith
  vector_search :: vector_search
  get_conversation_history :: "string \<Rightarrow> exn + message list"
  web_search_tool :: bool
  search_web :: "string \<Rightarrow> exn + web_results"
  llm :: "(llm_prompt \<Rightarrow> exn + string) option"
  get_agent :: "(string \<Rightarrow> exn + agent option) option"
  re_search :: "product_pattern \<Rightarrow> string \<Rightarrow> bool"

definition no_information_response :: chat_response where
  "no_information_response =
     \<lparr>response = ''I'' @ [APOS] @ ''m so'' @ ''rry, I couldn'' @ [APOS]
        @ ''t find any relevant information for your query. Please upload relevant technical documentation or try rephrasing your question.'',
      sources = [], chunks_found = 0\<rparr>"

definition error_response :: chat_response where
  "error_response =
     \<lparr>response = ''I apologize, but I encountered an error while processing your request. Please try again.'',
      sources = [], chunks_found = 0\<rparr>"

text \<open>Step 0: the conversation history, one entry for each user message.\<close>

definition add_history :: "history_entry list \<Rightarrow> message \<Rightarrow> history_entry list" where
  "add_history h msg =
     (let t = (case msg_text msg of None \<Rightarrow> [] | Some x \<Rightarrow> x)
      in if sender msg = Some ''user'' then h @ [\<lparr>h_message = t, h_response = []\<rparr>]
         else if sender msg = Some ''bot'' \<and> h \<noteq> []
           then butlast h @ [(last h)\<lparr>h_response := t\<rparr>]
         else h)"

definition load_history :: "env \<Rightarrow> string option \<Rightarrow> exn + history_entry list" where
  "load_history env conversation_id =
     (case conversation_id of
        None \<Rightarrow> Inr []
      | Some cid \<Rightarrow>
          if cid = [] then Inr []
          else (case get_conversation_history env cid of
                  Inl e \<Rightarrow> Inl e
                | Inr history_data \<Rightarrow> Inr (foldl add_history [] history_data)))"

text \<open>Step 2: the web search and the Relevance Gate, on at most three links.\<close>

definition web_step ::
  "env \<Rightarrow> string \<Rightarrow> string \<Rightarrow> confidence_assessment \<Rightarrow> exn + (web_results option \<times> web_link list)"
where
  "web_step env message kb_context kb_confidence =
     (if should_search_web kb_confidence \<and> web_search_tool env then
        (case search_web env message of
           Inl e \<Rightarrow> Inl e
         | Inr w0 \<Rightarrow>
             let w = (case links w0 of None \<Rightarrow> w0
                      | Some ls \<Rightarrow> w0\<lparr>links := Some (take 3 ls)\<rparr>);
                 should_include_links =
                   should_include_web_links (re_search env) message kb_context (Some w);
                 web_links =
                   (if should_include_links
                    then (case links w of None \<Rightarrow> [] | Some ls \<Rightarrow> ls) else [])
             in Inr (Some w, web_links))
      else Inr (None, []))"

text \<open>Step 4: the holes of the prompt and the call of the language model.\<close>

definition agent_instructions_of :: "env \<Rightarrow> string option \<Rightarrow> exn + string" where
  "agent_instructions_of env agent_id =
     (case agent_id of
        None \<Rightarrow> Inr []
      | Some a \<Rightarrow>
          if a = [] then Inr []
          else (case get_agent env of
                  None \<Rightarrow> Inr []
                | Some lookup \<Rightarrow>
                    (case lookup a of
                       Inl e \<Rightarrow> Inl e
                     | Inr None \<Rightarrow> Inr []
                     | Inr (Some ag) \<Rightarrow>
                         (case extra_instructions ag of
                            None \<Rightarrow> Inr []
                          | Some x \<Rightarrow>
                              if x = [] then Inr []
                              else Inr ([NL, NL] @ ''AGENT-SPECIFIC INSTRUCTIONS:'' @ [NL] @ x)))))"

definition links_text_of :: "web_link list \<Rightarrow> string" where
  "links_text_of web_links =
     (if web_links \<noteq> [] then
        [NL, NL] @ ''RELEVANT LINKS (include these when helpful):'' @ [NL]
          @ link_lines (take 3 web_links)
      else [])"

definition link_guidance_of :: "web_link list \<Rightarrow> string" where
  "link_guidance_of web_links =
     (if web_links \<noteq> [] then
        ''- When you have relevant links, include them naturally in your response'' @ [NL]
      else [])"

definition history_line :: "nat \<times> history_entry \<Rightarrow> string" where
  "history_line ie =
     (if h_message (snd ie) \<noteq> [] \<and> h_response (snd ie) \<noteq> [] then
        ''Previous Q'' @ str_nat (fst ie) @ '': '' @ take 100 (h_message (snd ie)) @ ''...''
          @ [NL]
          @ ''Previous A'' @ str_nat (fst ie) @ '': '' @ take 100 (h_response (snd ie))
          @ ''...'' @ [NL, NL]
      else [])"

definition history_context_of :: "history_entry list \<Rightarrow> string" where
  "history_context_of h =
     (if h \<noteq> [] then
        [NL, NL] @ ''CONVERSATION CONTEXT (recent exchanges):'' @ [NL]
          @ concat (map history_line (enumerate 1 (drop (length h - 3) h)))
      else [])"

text \<open>
  The prompt of one call: the six strings that fill the holes of the template.
\<close>

definition build_prompt ::
  "string \<Rightarrow> web_link list \<Rightarrow> history_entry list \<Rightarrow> string \<Rightarrow> string \<Rightarrow> llm_prompt"
where
  "build_prompt context web_links conversation_history agent_instructions message =
     \<lparr>prompt_context = context,
      prompt_links_text = links_text_of web_links,
      prompt_history_context = history_context_of conversation_history,
      prompt_agent_instructions = agent_instructions,
      prompt_message = message,
      prompt_link_guidance = link_guidance_of web_links\<rparr>"

text \<open>
  The calls of \<open>get_response\<close> that hand the retrieved chunks to a component are recorded:
  \<open>traced f tag cs\<close> is the component \<open>f\<close> applied to the chunk list \<open>cs\<close>, together with
  the record of this call. The orchestration returns its outcome and the calls it made, in
  the order it made them.
\<close>

datatype component_call =
  ConfidenceEvaluator "chunk list"
| ContextAssembler "chunk list"
| SourceExtraction "chunk list"

fun call_chunks :: "component_call \<Rightarrow> chunk list" where
  "call_chunks (ConfidenceEvaluator cs) = cs"
| "call_chunks (ContextAssembler cs) = cs"
| "call_chunks (SourceExtraction cs) = cs"

definition traced ::
  "(chunk list \<Rightarrow> 'a) \<Rightarrow> (chunk list \<Rightarrow> component_call) \<Rightarrow> chunk list
     \<Rightarrow> 'a \<times> component_call list"
where
  "traced f tag cs = (f cs, [tag cs])"

text \<open>
  The body of the inner \<open>try\<close>: \<open>Inl\<close> is an exception of the agent registry or of the
  language model, which the inner handler turns into the fallback answer of step 5.
\<close>

definition llm_answer_traced ::
  "env \<Rightarrow> (llm_prompt \<Rightarrow> exn + string) \<Rightarrow> string \<Rightarrow> string option \<Rightarrow> history_entry list
     \<Rightarrow> chunk list \<Rightarrow> web_link list \<Rightarrow> string
     \<Rightarrow> (exn + chat_response) \<times> component_call list"
where
  "llm_answer_traced env invoke message agent_id conversation_history chunks web_links context =
     (case agent_instructions_of env agent_id of
        Inl e \<Rightarrow> (Inl e, [])
      | Inr agent_instructions \<Rightarrow>
          (case invoke (build_prompt context web_links conversation_history
                          agent_instructions message) of
             Inl e \<Rightarrow> (Inl e, [])
           | Inr response_text \<Rightarrow>
               let (found_sources, t) =
                     traced (\<lambda>cs. extract_sources cs web_links) SourceExtraction chunks
               in (Inr \<lparr>response =
                          (if response_text = [] \<or> length (py_strip response_text) = 0
                           then generate_fallback_response context message web_links
                           else response_text),
                        sources = found_sources,
                        chunks_found = length chunks\<rparr>, t)))"

definition llm_answer ::
  "env \<Rightarrow> (llm_prompt \<Rightarrow> exn + string) \<Rightarrow> string \<Rightarrow> string option \<Rightarrow> history_entry list
     \<Rightarrow> chunk list \<Rightarrow> web_link list \<Rightarrow> string \<Rightarrow> exn + chat_response"
where
  "llm_answer env invoke message agent_id conversation_history chunks web_links context =
     fst (llm_answer_traced env invoke message agent_id conversation_history chunks
            web_links context)"

text \<open>
  Steps 1 to 5 once the chunks are retrieved. Step 4 returns the answer of the language
  model; when there is no model or the inner handler caught an exception, step 5 builds
  the fallback answer.
\<close>

definition answer_traced ::
  "env \<Rightarrow> string \<Rightarrow> string option \<Rightarrow> history_entry list \<Rightarrow> chunk list
     \<Rightarrow> (exn + chat_response) \<times> component_call list"
where
  "answer_traced env message agent_id conversation_history chunks =
     (let (kb_context, t1) =
            (if chunks \<noteq> [] then traced (\<lambda>cs. build_context cs None) ContextAssembler chunks
             else ([], []));
          (kb_confidence, t2) =
            traced (\<lambda>cs. evaluate_kb_confidence (arith env) cs message) ConfidenceEvaluator
              chunks
      in case web_step env message kb_context kb_confidence of
           Inl e \<Rightarrow> (Inl e, t1 @ t2)
         | Inr (web, web_links) \<Rightarrow>
             let (context, t3) = traced (\<lambda>cs. build_context cs web) ContextAssembler chunks
             in if context = [] then (Inr no_information_response, t1 @ t2 @ t3)
                else
                  let (step4, t4) =
                        (case llm env of
                           None \<Rightarrow> (None, [])
                         | Some invoke \<Rightarrow>
                             (case llm_answer_traced env invoke message agent_id
                                     conversation_history chunks web_links context of
                                (Inl e, t) \<Rightarrow> (None, t)
                              | (Inr r, t) \<Rightarrow> (Some r, t)))
                  in case step4 of
                       Some r \<Rightarrow> (Inr r, t1 @ t2 @ t3 @ t4)
                     | None \<Rightarrow>
                         let (found_sources, t5) =
                               traced (\<lambda>cs. extract_sources cs web_links) SourceExtraction
                                 chunks
                         in (Inr \<lparr>response =
                                    generate_fallback_response context message web_links,
                                  sources = found_sources,
                                  chunks_found = length chunks\<rparr>,
                             t1 @ t2 @ t3 @ t4 @ t5))"

definition answer ::
  "env \<Rightarrow> string \<Rightarrow> string option \<Rightarrow> history_entry list \<Rightarrow> chunk list \<Rightarrow> exn + chat_response"
where
  "answer env message agent_id conversation_history chunks =
     fst (answer_traced env message agent_id conversation_history chunks)"

text \<open>
  The body of the outer \<open>try\<close> of \<open>get_response\<close> with the calls it made, the body alone,
  the calls alone, and \<open>get_response\<close> itself: the outer handler turns every exception of
  the body into the fixed error response.
\<close>

definition get_response_body_traced ::
  "env \<Rightarrow> service_state \<Rightarrow> string \<Rightarrow> string option \<Rightarrow> string option \<Rightarrow> string option
     \<Rightarrow> ((exn + chat_response) \<times> component_call list) \<times> service_state"
where
  "get_response_body_traced env s message conversation_id agent_id user_id =
     (case load_history env conversation_id of
        Inl e \<Rightarrow> ((Inl e, []), s)
      | Inr conversation_history \<Rightarrow>
          let (chunks, s1) =
                search_knowledge_base (vector_search env) s message agent_id None user_id
          in (answer_traced env message agent_id conversation_history chunks, s1))"

definition get_response_body ::
  "env \<Rightarrow> service_state \<Rightarrow> string \<Rightarrow> string option \<Rightarrow> string option \<Rightarrow> string option
     \<Rightarrow> (exn + chat_response) \<times> service_state"
where
  "get_response_body env s message conversation_id agent_id user_id =
     (fst (fst (get_response_body_traced env s message conversation_id agent_id user_id)),
      snd (get_response_body_traced env s message conversation_id agent_id user_id))"

definition get_response_calls ::
  "env \<Rightarrow> service_state \<Rightarrow> string \<Rightarrow> string option \<Rightarrow> string option \<Rightarrow> string option
     \<Rightarrow> component_call list"
where
  "get_response_calls env s message conversation_id agent_id user_id =
     snd (fst (get_response_body_traced env s message conversation_id agent_id user_id))"

definition get_response ::
  "env \<Rightarrow> service_state \<Rightarrow> string \<Rightarrow> string option \<Rightarrow> string option \<Rightarrow> string option
     \<Rightarrow> (exn + chat_response) \<times> service_state"
where
  "get_response env s message conversation_id agent_id user_id =
     (case get_response_body env s message conversation_id agent_id user_id of
        (Inl e, s1) \<Rightarrow> (Inr error_response, s1)
      | (Inr r, s1) \<Rightarrow> (Inr r, s1))"

section \<open>Auxiliary definitions\<close>

text \<open>
  A keyword is plain when it is not empty, neither starts nor ends with whitespace and is
  already in lower case. The number of word starts of a text is also computed by a scan
  that remembers whether the previous character was whitespace.
\<close>

definition plain_keyword :: "string \<Rightarrow> bool" where
  "plain_keyword k =
     (k \<noteq> [] \<and> \<not> py_isspace (hd k) \<and> \<not> py_isspace (last k) \<and> py_lower k = k)"

fun starts_count :: "bool \<Rightarrow> string \<Rightarrow> nat" where
  "starts_count b [] = 0"
| "starts_count b (c # cs) =
     (if \<not> py_isspace c \<and> b then 1 else 0) + starts_count (py_isspace c) cs"

definition starts_set :: "bool \<Rightarrow> string \<Rightarrow> nat set" where
  "starts_set b s =
     {i. i < length s \<and> \<not> py_isspace (s ! i)
         \<and> (if i = 0 then b else py_isspace (s ! (i - 1)))}"

text \<open>Example inputs: a chunk, a regular expression engine that never matches.\<close>

definition chunk_of :: "real \<Rightarrow> string \<Rightarrow> chunk" where
  "chunk_of sc tx =
     \<lparr>chunk_text = Some tx, similarity_score = Some sc, chunk_metadata = None, rank = 1\<rparr>"

definition no_match :: "product_pattern \<Rightarrow> string \<Rightarrow> bool" where
  "no_match p s = False"

text \<open>
  An example run that fills the cache: a vector search that finds nothing, and the state
  after the \<open>n\<close> queries x, xx, xxx, ... at depth 3 on the global scope.
\<close>

definition fill_query :: "nat \<Rightarrow> string" where
  "fill_query i = replicate (Suc i) (CHR ''x'')"

definition empty_search :: vector_search where
  "empty_search calls call = Inr []"

primrec warm :: "nat \<Rightarrow> service_state" where
  "warm 0 = initial_state"
| "warm (Suc n) =
     snd (search_knowledge_base empty_search (warm n) (fill_query n) None (Some 3) None)"

text \<open>Every list in the cache holds only chunks at or above the threshold.\<close>

definition cache_filtered :: "service_state \<Rightarrow> bool" where
  "cache_filtered s =
     list_all (\<lambda>entry. list_all (\<lambda>c. get_similarity_score c \<ge> confidence_threshold) (snd entry))
       (query_cache s)"

text \<open>
  An arithmetic without rounding. Floating point computes the same wherever the exact sum
  and quotient are floats themselves: for one score, and for the scores 0.25, 0.5, 0.625
  and 0.75 of the examples.

  An example environment: the vector search finds one strong and one weak chunk, the
  conversation store is down, no web search is configured, and the language model
  answers with blanks.
\<close>

definition two_chunks :: vector_search where
  "two_chunks calls call =
     Inr [chunk_of 0.9 ''Hold the reset button.'', chunk_of 0.1 ''Unrelated.'']"

definition store_down :: "string \<Rightarrow> exn + message list" where
  "store_down cid = Inl (Error ''store down'')"

definition no_web :: "string \<Rightarrow> exn + web_results" where
  "no_web q = Inr \<lparr>web_text = Some [], links = Some []\<rparr>"

definition blank_llm :: "llm_prompt \<Rightarrow> exn + string" where
  "blank_llm p = Inr ''  ''"

definition exact_arith :: float_arith where
  "exact_arith = \<lparr>float_sum = sum_list, float_div = (\<lambda>x n. x / real n)\<rparr>"

definition example_env :: env where
  "example_env =
     \<lparr>arith = exact_arith,
      vector_search = two_chunks, get_conversation_history = store_down,
      web_search_tool = False, search_web = no_web, llm = Some blank_llm,
      get_agent = None, re_search = no_match\<rparr>"

text \<open>The same environment with a language model whose call raises.\<close>

definition failing_llm :: "llm_prompt \<Rightarrow> exn + string" where
  "failing_llm p = Inl (Error ''timeout'')"

definition llm_down_env :: env where
  "llm_down_env = example_env\<lparr>llm := Some failing_llm\<rparr>"



section \<open>Properties of the Confidence Evaluator\<close>

lemma evaluate_kb_confidence_nonempty:
  "chunks \<noteq> [] \<Longrightarrow>
   decision (evaluate_kb_confidence fa chunks query) =
     (if avg_similarity_of fa chunks \<ge> 0.8 \<and> length (high_confidence_chunks_of chunks) \<ge> 2
        then (0.9, False, ''high_confidence_kb_match'')
      else if avg_similarity_of fa chunks \<ge> 0.6 \<and> total_text_length_of chunks \<ge> 500
        then (0.7, False, ''sufficient_kb_context'')
      else if avg_similarity_of fa chunks \<ge> 0.4
        then (0.5, True, ''moderate_kb_match_needs_web'')
      else (0.2, True, ''low_kb_confidence''))"
  by (simp add: evaluate_kb_confidence_def decision_def Let_def)


text \<open>
  Six chunks that score 0.8 each: when the arithmetic rounds their mean to
  0.7999999999999999, as one addition after the other does, the first rule does not match
  and the decision is that of the third rule.
\<close>

lemma rounded_mean_lowers_tier:
  assumes "float_div fa (float_sum fa (replicate 6 0.8)) 6 = 0.7999999999999999"
  shows "decision (evaluate_kb_confidence fa (replicate 6 (chunk_of 0.8 ''a'')) query)
           = (0.5, True, ''moderate_kb_match_needs_web'')"
proof -
  have scores: "map get_similarity_score (replicate 6 (chunk_of 0.8 ''a'')) = replicate 6 0.8"
    by (simp add: chunk_of_def get_similarity_score_def)
  have six: "length (replicate 6 (chunk_of 0.8 ''a'')) = 6"
    by simp
  have avg: "avg_similarity_of fa (replicate 6 (chunk_of 0.8 ''a'')) = 0.7999999999999999"
    unfolding avg_similarity_of_def scores six by (rule assms)
  have short: "total_text_length_of (replicate 6 (chunk_of 0.8 ''a'')) = 6"
    by (simp add: total_text_length_of_def chunk_of_def get_text_def sum_list_replicate)
  have "replicate 6 (chunk_of 0.8 ''a'') \<noteq> []"
    by simp
  note cascade = evaluate_kb_confidence_nonempty [OF this, of fa query]
  show ?thesis
    unfolding cascade avg short by simp
qed



section \<open>Properties of the string operations\<close>


lemma py_in_sublist: "py_in sub s = sublist sub s"
  by (induction s) (simp_all add: sublist_Cons_right)

lemma sublist_dropWhile_keep:
  assumes "sublist k s" "k \<noteq> []" "\<not> P (hd k)"
  shows "sublist k (dropWhile P s)"
  using assms
proof (induction s)
  case Nil
  then show ?case by simp
next
  case (Cons c cs)
  show ?case
  proof (cases "P c")
    case True
    have "\<not> prefix k (c # cs)"
      using True Cons.prems(2,3) by (cases k) auto
    with Cons.prems(1) have "sublist k cs"
      by (simp add: sublist_Cons_right)
    with Cons.IH Cons.prems True show ?thesis by simp
  next
    case False
    then show ?thesis using Cons.prems(1) by simp
  qed
qed

lemma sublist_chain: "sublist xs ys \<Longrightarrow> sublist ys zs \<Longrightarrow> sublist xs zs"
  unfolding sublist_def by (metis append.assoc)

lemma py_strip_sublist: "sublist (py_strip s) s"
proof -
  have "sublist (dropWhile py_isspace (rev (dropWhile py_isspace s))) (rev (dropWhile py_isspace s))"
    by simp
  moreover have "sublist (rev (dropWhile py_isspace s)) (rev s)"
    by simp
  ultimately have "sublist (dropWhile py_isspace (rev (dropWhile py_isspace s))) (rev s)"
    by (rule sublist_chain)
  then show ?thesis
    by (simp add: py_strip_def sublist_rev_left)
qed

lemma sublist_py_strip:
  assumes "k \<noteq> []" "\<not> py_isspace (hd k)" "\<not> py_isspace (last k)"
  shows "sublist k (py_strip s) = sublist k s"
proof
  assume "sublist k (py_strip s)"
  then show "sublist k s"
    using py_strip_sublist sublist_chain by blast
next
  assume "sublist k s"
  then have "sublist k (dropWhile py_isspace s)"
    using assms(1,2) by (rule sublist_dropWhile_keep)
  then have "sublist (rev k) (rev (dropWhile py_isspace s))"
    by simp
  then have "sublist (rev k) (dropWhile py_isspace (rev (dropWhile py_isspace s)))"
    using assms(1,3) by (intro sublist_dropWhile_keep) (simp_all add: hd_rev)
  then show "sublist k (py_strip s)"
    by (simp add: py_strip_def sublist_rev_right)
qed

lemma sublist_py_lower:
  assumes "py_lower k = k"
  shows "sublist k (py_lower s) = ci_substring k s"
proof
  assume "sublist k (py_lower s)"
  then obtain ps ss where "map lower_char s = ps @ k @ ss"
    by (auto simp: sublist_def py_lower_def)
  then have "\<exists>b r. s = b @ r \<and> ps = map lower_char b \<and> k @ ss = map lower_char r"
    by (simp only: map_eq_append_conv)
  then obtain b r where br: "s = b @ r" "map lower_char r = k @ ss"
    by auto
  then have "\<exists>p a. r = p @ a \<and> k = map lower_char p \<and> ss = map lower_char a"
    by (simp only: map_eq_append_conv)
  then obtain p a where pa: "r = p @ a" "map lower_char p = k"
    by auto
  have "s = b @ p @ a \<and> py_lower p = py_lower k"
    using br pa assms by (simp add: py_lower_def)
  then show "ci_substring k s"
    unfolding ci_substring_def by blast
next
  assume "ci_substring k s"
  then obtain b p a where "s = b @ p @ a" "py_lower p = py_lower k"
    by (auto simp: ci_substring_def)
  with assms have "py_lower s = py_lower b @ k @ py_lower a"
    by (simp add: py_lower_def)
  then show "sublist k (py_lower s)"
    by (auto simp: sublist_def)
qed

lemma technical_keywords_plain: "list_all plain_keyword technical_keywords"
  by (simp add: technical_keywords_def plain_keyword_def py_lower_def lower_char_def py_isspace_def)

lemma length_split_from:
  "length (split_from w s) = (if w = [] then starts_count True s else 1 + starts_count False s)"
  by (induction s arbitrary: w) auto

lemma starts_set_Cons:
  "starts_set b (c # cs) =
     (if \<not> py_isspace c \<and> b then {0} else {}) \<union> Suc ` starts_set (py_isspace c) cs"
proof (rule set_eqI)
  fix x
  show "x \<in> starts_set b (c # cs) \<longleftrightarrow>
        x \<in> (if \<not> py_isspace c \<and> b then {0} else {}) \<union> Suc ` starts_set (py_isspace c) cs"
    by (cases x) (auto simp: starts_set_def nth_Cons' image_iff)
qed

lemma finite_starts_set: "finite (starts_set b s)"
  by (simp add: starts_set_def)

lemma card_starts_set: "card (starts_set b s) = starts_count b s"
proof (induction s arbitrary: b)
  case Nil
  then show ?case by (simp add: starts_set_def)
next
  case (Cons c cs)
  have img: "card (Suc ` starts_set (py_isspace c) cs) = starts_count (py_isspace c) cs"
    using Cons.IH by (simp add: card_image)
  have fin: "finite (Suc ` starts_set (py_isspace c) cs)"
    by (simp add: finite_starts_set)
  have notin: "0 \<notin> Suc ` starts_set (py_isspace c) cs"
    by auto
  show ?case
    using img fin notin by (cases "py_isspace c"; cases b) (simp_all add: starts_set_Cons)
qed

lemma word_starts_starts_set: "word_starts s = starts_set True s"
  by (auto simp: word_starts_def starts_set_def)

lemma length_py_split: "length (py_split s) = card (word_starts s)"
  by (simp add: py_split_def length_split_from word_starts_starts_set card_starts_set)

section \<open>Properties of the Query Analyzer\<close>

text \<open>
  C2. For every query, \<open>_analyze_query_complexity\<close> is a function of the query alone; its
  word count is the number of words of the whitespace tokenization, its technical score
  is the number of the twelve technical keywords that occur in the query as a
  case-insensitive substring, and it classifies: at most 3 words and no keyword gives
  simple with 3 chunks; otherwise at most 8 words and at most 2 keywords gives moderate
  with 5; otherwise complex with 8.
\<close>

theorem analyze_query_complexity_spec:
  "technical_keywords =
     [''how'', ''why'', ''what'', ''when'', ''where'', ''troubleshoot'', ''error'',
      ''problem'', ''issue'', ''configure'', ''install'', ''setup''] \<and>
   word_count (analyze_query_complexity q) = card (word_starts q) \<and>
   technical_score (analyze_query_complexity q)
     = length (filter (\<lambda>k. ci_substring k q) technical_keywords) \<and>
   (complexity (analyze_query_complexity q), optimal_chunks (analyze_query_complexity q)) =
     (if card (word_starts q) \<le> 3
         \<and> length (filter (\<lambda>k. ci_substring k q) technical_keywords) = 0
        then (''simple'', 3)
      else if card (word_starts q) \<le> 8
         \<and> length (filter (\<lambda>k. ci_substring k q) technical_keywords) \<le> 2
        then (''moderate'', 5)
      else (''complex'', 8))"
proof -
  have kw: "py_in k (py_strip (py_lower q)) = ci_substring k q"
    if "k \<in> set technical_keywords" for k
  proof -
    from that technical_keywords_plain have "plain_keyword k"
      by (simp add: list_all_iff)
    then show ?thesis
      by (simp add: plain_keyword_def py_in_sublist sublist_py_strip sublist_py_lower)
  qed
  have ts: "count_matches technical_keywords (py_strip (py_lower q))
      = length (filter (\<lambda>k. ci_substring k q) technical_keywords)"
    unfolding count_matches_def
    by (rule arg_cong [where f = length], rule filter_cong) (simp_all add: kw)
  have "technical_keywords =
     [''how'', ''why'', ''what'', ''when'', ''where'', ''troubleshoot'', ''error'',
      ''problem'', ''issue'', ''configure'', ''install'', ''setup'']"
    by (simp add: technical_keywords_def)
  then show ?thesis
    by (simp add: analyze_query_complexity_def Let_def ts length_py_split)
qed

section \<open>Properties of the Relevance Gate\<close>

lemma lower_buy_latest:
  "py_lower ''buy'' = ''buy''" "py_lower ''latest'' = ''latest''"
  by (simp_all add: py_lower_def lower_char_def)

lemma ci_substring_self: "ci_substring k k"
  unfolding ci_substring_def
  by (rule exI [of _ "[]"], rule exI [of _ k], rule exI [of _ "[]"]) simp

text \<open>
  C9, as stated, fails: the message "buy" with an empty knowledge-base context and web
  results without links (what \<open>_search_web\<close> returns when the search finds nothing) is
  refused by the guard at the head of \<open>_should_include_web_links\<close>.
\<close>

theorem web_intent_without_links_counterexample:
  "ci_substring ''buy'' ''buy'' \<and>
   \<not> should_include_web_links no_match ''buy'' []
        (Some \<lparr>web_text = Some [], links = Some []\<rparr>)"
  by (simp add: ci_substring_self should_include_web_links_def no_web_links_def)

text \<open>
  C9, amended. For every message that contains "buy" or "latest" as a case-insensitive
  substring and every knowledge-base context, \<open>_should_include_web_links\<close> returns true
  whenever the web results carry a non-empty list of links.
\<close>

theorem web_intent_includes_links:
  assumes "web = Some w" and "links w = Some ls" and "ls \<noteq> []"
    and "ci_substring ''buy'' message \<or> ci_substring ''latest'' message"
  shows "should_include_web_links matcher message kb_context web"
proof -
  have guard: "\<not> no_web_links web"
    using assms(1-3) by (simp add: no_web_links_def)
  have "py_in ''buy'' (py_lower message) \<or> py_in ''latest'' (py_lower message)"
    using assms(4)
    by (simp add: py_in_sublist sublist_py_lower [OF lower_buy_latest(1)]
        sublist_py_lower [OF lower_buy_latest(2)])
  then have "list_ex (\<lambda>keyword. py_in keyword (py_lower message)) web_keywords"
    by (auto simp: web_keywords_def)
  then show ?thesis
    using guard by (simp add: should_include_web_links_def Let_def)
qed

theorem web_intent_includes_links_witness:
  "ci_substring ''buy'' ''Where to BUY it'' \<and>
   should_include_web_links no_match ''Where to BUY it'' (replicate 500 (CHR ''k''))
     (Some \<lparr>web_text = Some ''shop'',
            links = Some [\<lparr>title = ''Shop'', url = ''http://shop'', snippet = ''s''\<rparr>]\<rparr>)"
proof -
  have "py_lower ''BUY'' = py_lower ''buy''"
    by code_simp
  then have "''Where to BUY it'' = ''Where to '' @ ''BUY'' @ '' it''
      \<and> py_lower ''BUY'' = py_lower ''buy''"
    by simp
  then have sub: "ci_substring ''buy'' ''Where to BUY it''"
    unfolding ci_substring_def by blast
  then show ?thesis
    using web_intent_includes_links [of
        "Some \<lparr>web_text = Some ''shop'',
               links = Some [\<lparr>title = ''Shop'', url = ''http://shop'', snippet = ''s''\<rparr>]\<rparr>"
        "\<lparr>web_text = Some ''shop'',
          links = Some [\<lparr>title = ''Shop'', url = ''http://shop'', snippet = ''s''\<rparr>]\<rparr>"
        "[\<lparr>title = ''Shop'', url = ''http://shop'', snippet = ''s''\<rparr>]"
        "''Where to BUY it''" no_match "replicate 500 (CHR ''k'')"]
    by simp
qed

text \<open>
  C10. When the web results are \<open>None\<close>, an empty dictionary, or carry no link (the key
  \<open>links\<close> absent or its list empty), \<open>_should_include_web_links\<close> returns false, whatever
  the message and the knowledge-base context are: the guard comes before the keyword rule
  and the short-context rule.
\<close>

theorem no_links_never_included:
  assumes "web = None \<or> (\<exists>w. web = Some w \<and> (links w = None \<or> links w = Some []))"
  shows "should_include_web_links matcher message kb_context web = False"
  using assms by (auto simp: should_include_web_links_def no_web_links_def)

theorem no_links_never_included_witness:
  "list_ex (\<lambda>keyword. py_in keyword (py_lower ''buy the latest'')) web_keywords \<and>
   should_include_web_links no_match ''buy the latest'' []
     (Some \<lparr>web_text = Some ''shop'', links = Some []\<rparr>) = False \<and>
   should_include_web_links no_match ''buy the latest'' [] None = False"
proof -
  have "list_ex (\<lambda>keyword. py_in keyword (py_lower ''buy the latest'')) web_keywords"
    by code_simp
  moreover have "should_include_web_links no_match ''buy the latest'' []
     (Some \<lparr>web_text = Some ''shop'', links = Some []\<rparr>) = False"
    using no_links_never_included [of "Some \<lparr>web_text = Some ''shop'', links = Some []\<rparr>"
        no_match "''buy the latest''" "[]"]
    by simp
  moreover have "should_include_web_links no_match ''buy the latest'' [] None = False"
    using no_links_never_included [of None no_match "''buy the latest''" "[]"]
    by simp
  ultimately show ?thesis by simp
qed

section \<open>Properties of the dictionary and of the cache\<close>

lemma map_of_dict_set: "map_of (dict_set d k v) k = Some v"
  by (induction d) auto

lemma keys_dict_set:
  "map fst (dict_set d k v) = (if k \<in> set (map fst d) then map fst d else map fst d @ [k])"
  by (induction d) force+

lemma dict_set_new: "map_of d k = None \<Longrightarrow> dict_set d k v = d @ [(k, v)]"
  by (induction d) (auto split: if_splits)

lemma length_dict_set_le: "length (dict_set d k v) \<le> Suc (length d)"
  by (induction d) auto

lemma map_of_snoc: "map_of d k = None \<Longrightarrow> map_of (d @ [(k, v)]) k = Some v"
  by (induction d) (auto split: if_splits)

lemma map_of_tl_None: "map_of d k = None \<Longrightarrow> map_of (tl d) k = None"
  by (cases d) (auto split: if_splits)

lemma search_bound:
  assumes "length (query_cache s) \<le> cache_max_size"
  shows "length (query_cache (snd (search_knowledge_base vs s q a t u))) \<le> cache_max_size"
proof -
  have "length (dict_set (tl (query_cache s)) k v) \<le> cache_max_size"
    if "length (query_cache s) \<ge> cache_max_size" for k v
    using that assms length_dict_set_le [of "tl (query_cache s)" k v]
    by (simp add: cache_max_size_def)
  moreover have "length (dict_set (query_cache s) k v) \<le> cache_max_size"
    if "\<not> length (query_cache s) \<ge> cache_max_size" for k v
    using that length_dict_set_le [of "query_cache s" k v] by simp
  ultimately show ?thesis
    using assms
    by (simp add: search_knowledge_base_def Let_def split: option.splits sum.splits)
qed

lemma reachable_bound: "reachable vs s \<Longrightarrow> length (query_cache s) \<le> cache_max_size"
proof (induction rule: reachable.induct)
  case reachable_init
  then show ?case by (simp add: initial_state_def)
next
  case (reachable_search s query agent_id top_k user_id)
  then show ?case by (simp add: search_bound)
next
  case (reachable_clear s)
  then show ?case by (simp add: clear_cache_def)
qed

lemma search_miss:
  assumes "map_of (query_cache s) (cache_key_of a q (depth_of q t)) = None"
    and "vs (search_log s) (search_call_of a q (depth_of q t) u) = Inr results"
  shows "search_knowledge_base vs s q a t u =
    (filter (\<lambda>r. get_similarity_score r \<ge> confidence_threshold) results,
     \<lparr>query_cache =
        (if length (query_cache s) \<ge> cache_max_size then tl (query_cache s) else query_cache s)
          @ [(cache_key_of a q (depth_of q t),
              filter (\<lambda>r. get_similarity_score r \<ge> confidence_threshold) results)],
      search_log = search_log s @ [search_call_of a q (depth_of q t) u]\<rparr>)"
  using assms
  by (simp add: search_knowledge_base_def Let_def dict_set_new map_of_tl_None)

lemma search_hit:
  assumes "map_of (query_cache s) (cache_key_of a q (depth_of q t)) = Some cached"
  shows "search_knowledge_base vs s q a t u = (cached, s)"
  using assms by (simp add: search_knowledge_base_def Let_def)

lemma distinct_keys_tl: "distinct (map fst d) \<Longrightarrow> distinct (map fst (tl d))"
  by (cases d) auto

lemma distinct_dict_set: "distinct (map fst d) \<Longrightarrow> distinct (map fst (dict_set d k v))"
  by (simp add: keys_dict_set)

lemma list_all_tl: "list_all P d \<Longrightarrow> list_all P (tl d)"
  by (cases d) auto

lemma evicted_key_gone:
  assumes "distinct (map fst d)" and "d \<noteq> []" and "map_of d k = None"
  shows "map_of (tl d @ [(k, v)]) (fst (hd d)) = None"
  using assms by (cases d) (auto simp: map_of_eq_None_iff split: if_splits)

lemma search_distinct:
  assumes "distinct (map fst (query_cache s))"
  shows "distinct (map fst (query_cache (snd (search_knowledge_base vs s q a t u))))"
  using assms
  by (simp add: search_knowledge_base_def Let_def distinct_dict_set distinct_keys_tl
      split: option.splits sum.splits)

lemma reachable_distinct: "reachable vs s \<Longrightarrow> distinct (map fst (query_cache s))"
proof (induction rule: reachable.induct)
  case reachable_init
  then show ?case by (simp add: initial_state_def)
next
  case (reachable_search s query agent_id top_k user_id)
  then show ?case by (simp add: search_distinct)
next
  case (reachable_clear s)
  then show ?case by (simp add: clear_cache_def)
qed

lemma search_filtered:
  assumes "cache_filtered s"
  shows "cache_filtered (snd (search_knowledge_base vs s q a t u)) \<and>
         list_all (\<lambda>c. get_similarity_score c \<ge> confidence_threshold)
           (fst (search_knowledge_base vs s q a t u))"
proof (cases "map_of (query_cache s) (cache_key_of a q (depth_of q t))")
  case (Some cached)
  then have "(cache_key_of a q (depth_of q t), cached) \<in> set (query_cache s)"
    by (rule map_of_SomeD)
  with assms have "list_all (\<lambda>c. get_similarity_score c \<ge> confidence_threshold) cached"
    by (auto simp: cache_filtered_def list_all_iff)
  with assms Some show ?thesis
    by (simp add: search_hit)
next
  case None
  show ?thesis
  proof (cases "vs (search_log s) (search_call_of a q (depth_of q t) u)")
    case (Inl e)
    with None assms show ?thesis
      by (simp add: search_knowledge_base_def Let_def cache_filtered_def)
  next
    case (Inr results)
    have new: "list_all (\<lambda>c. get_similarity_score c \<ge> confidence_threshold)
        (filter (\<lambda>r. get_similarity_score r \<ge> confidence_threshold) results)"
      by (simp add: list_all_iff)
    have old: "cache_filtered (s\<lparr>query_cache := tl (query_cache s)\<rparr>)"
      using assms by (simp add: cache_filtered_def list_all_tl)
    show ?thesis
      using new old assms
      by (simp add: search_miss [where vs = vs, OF None Inr] cache_filtered_def)
  qed
qed

lemma reachable_filtered: "reachable vs s \<Longrightarrow> cache_filtered s"
proof (induction rule: reachable.induct)
  case reachable_init
  then show ?case by (simp add: initial_state_def cache_filtered_def)
next
  case (reachable_search s query agent_id top_k user_id)
  then show ?case by (simp add: search_filtered)
next
  case (reachable_clear s)
  then show ?case by (simp add: clear_cache_def cache_filtered_def)
qed

lemma search_collaborator_returns:
  "search_collaborator ext calls call
     = Inr (case ext calls call of Inl e \<Rightarrow> [] | Inr search_results \<Rightarrow> search_results)"
  by (simp add: search_collaborator_def split: sum.splits)

lemma cache_key_cong:
  assumes "scope_of a1 = scope_of a2" and "py_strip (py_lower q1) = py_strip (py_lower q2)"
  shows "cache_key_of a1 q1 k = cache_key_of a2 q2 k"
  using assms by (simp add: cache_key_of_def)

subsection \<open>The example run that fills the cache\<close>

lemma py_strip_no_space:
  assumes "\<forall>c \<in> set s. \<not> py_isspace c"
  shows "py_strip s = s"
proof -
  have front: "dropWhile py_isspace s = s"
    using assms by (cases s) auto
  have "dropWhile py_isspace (rev s) = rev s"
  proof (cases "rev s")
    case Nil
    then show ?thesis by simp
  next
    case (Cons c cs)
    then have "c \<in> set s"
      by (metis list.set_intros(1) set_rev)
    with assms Cons show ?thesis by simp
  qed
  with front show ?thesis
    by (simp add: py_strip_def)
qed

lemma normal_fill_query: "py_strip (py_lower (fill_query i)) = fill_query i"
proof -
  have "lower_char (CHR ''x'') = CHR ''x''"
    by (simp add: lower_char_def)
  then have low: "py_lower (fill_query i) = fill_query i"
    by (simp add: py_lower_def fill_query_def)
  have "\<not> py_isspace (CHR ''x'')"
    by (simp add: py_isspace_def)
  then have "\<forall>c \<in> set (fill_query i). \<not> py_isspace c"
    by (simp add: fill_query_def)
  then show ?thesis
    using low by (simp add: py_strip_no_space)
qed

lemma key_fill_query:
  "cache_key_of None (fill_query i) k = ''global:'' @ fill_query i @ '':'' @ str_nat k"
  by (simp add: cache_key_of_def scope_of_def normal_fill_query)

lemma key_fill_query_inj:
  assumes "cache_key_of None (fill_query i) k = cache_key_of None (fill_query j) k"
  shows "i = j"
proof -
  have "''global:'' @ fill_query i @ '':'' @ str_nat k
      = ''global:'' @ fill_query j @ '':'' @ str_nat k"
    using assms by (simp only: key_fill_query)
  then have "length (fill_query i) = length (fill_query j)"
    by simp
  then show ?thesis
    by (simp add: fill_query_def)
qed

lemma reachable_warm: "reachable empty_search (warm n)"
  by (induction n) (simp_all add: reachable_init reachable_search)

lemma cache_warm:
  "n \<le> 100 \<Longrightarrow>
   query_cache (warm n) = map (\<lambda>i. (cache_key_of None (fill_query i) 3, [])) [0..<n]"
proof (induction n)
  case 0
  then show ?case by (simp add: initial_state_def)
next
  case (Suc n)
  then have IH: "query_cache (warm n)
      = map (\<lambda>i. (cache_key_of None (fill_query i) 3, [])) [0..<n]"
    by simp
  have depth: "depth_of (fill_query n) (Some 3) = 3"
    by (simp add: depth_of_def)
  have "cache_key_of None (fill_query n) 3 \<notin> fst ` set (query_cache (warm n))"
    using key_fill_query_inj [of _ 3 n] by (auto simp: IH)
  then have miss: "map_of (query_cache (warm n))
      (cache_key_of None (fill_query n) (depth_of (fill_query n) (Some 3))) = None"
    by (simp add: depth map_of_eq_None_iff)
  have found: "empty_search (search_log (warm n))
      (search_call_of None (fill_query n) (depth_of (fill_query n) (Some 3)) None) = Inr []"
    by (simp add: empty_search_def)
  have "length (query_cache (warm n)) < cache_max_size"
    using Suc.prems by (simp add: IH cache_max_size_def)
  then show ?case
    by (simp add: search_miss [where vs = empty_search, OF miss found] depth IH)
qed

section \<open>Properties of the Retrieval Cache\<close>

text \<open>
  C3. Two consecutive lookups with the same scope identifier, the same normalized query
  and the same depth: the second lookup is a cache hit, it returns the list the first one
  returned and calls no collaborator; when the key is not cached before the first lookup,
  the two lookups call the vector search once, and the list returned is the one the first
  lookup stored, filtered at the threshold.
\<close>

theorem repeated_lookup_hits_cache:
  fixes ext :: vector_search and s :: service_state
    and q1 q2 :: string and a1 a2 :: "string option"
    and t1 t2 :: "nat option" and u1 u2 :: "string option"
  defines "vs \<equiv> search_collaborator ext"
  defines "first \<equiv> search_knowledge_base vs s q1 a1 t1 u1"
  defines "second \<equiv> search_knowledge_base vs (snd first) q2 a2 t2 u2"
  defines "key \<equiv> cache_key_of a1 q1 (depth_of q1 t1)"
  defines "call \<equiv> search_call_of a1 q1 (depth_of q1 t1) u1"
  assumes "scope_of a1 = scope_of a2"
    and "py_strip (py_lower q1) = py_strip (py_lower q2)"
    and "depth_of q1 t1 = depth_of q2 t2"
  shows "fst second = fst first \<and> snd second = snd first \<and>
         (map_of (query_cache s) key = None \<longrightarrow>
            search_log (snd second) = search_log s @ [call] \<and>
            map_of (query_cache (snd first)) key = Some (fst first) \<and>
            fst first = filter (\<lambda>r. get_similarity_score r \<ge> 0.3)
                          (case ext (search_log s) call of Inl e \<Rightarrow> [] | Inr rs \<Rightarrow> rs))"
proof -
  have key2: "cache_key_of a2 q2 (depth_of q2 t2) = key"
    using assms(6-8) cache_key_cong [of a1 a2 q1 q2] by (simp add: key_def)
  show ?thesis
  proof (cases "map_of (query_cache s) key")
    case (Some cached)
    then have one: "first = (cached, s)"
      by (simp add: first_def key_def search_hit)
    then have "second = (cached, s)"
      using Some by (simp add: second_def key2 search_hit)
    with one Some show ?thesis by simp
  next
    case None
    let ?rs = "case ext (search_log s) call of Inl e \<Rightarrow> [] | Inr rs \<Rightarrow> rs"
    let ?kept = "filter (\<lambda>r. get_similarity_score r \<ge> confidence_threshold) ?rs"
    let ?old = "if length (query_cache s) \<ge> cache_max_size
                then tl (query_cache s) else query_cache s"
    have found: "vs (search_log s) call = Inr ?rs"
      by (simp add: vs_def search_collaborator_returns)
    have one: "first = (?kept, \<lparr>query_cache = ?old @ [(key, ?kept)],
                               search_log = search_log s @ [call]\<rparr>)"
      using search_miss [of s a1 q1 t1 vs u1 ?rs] None found
      by (simp add: first_def key_def call_def)
    have "map_of ?old key = None"
      using None by (simp add: map_of_tl_None)
    then have "map_of (?old @ [(key, ?kept)]) key = Some ?kept"
      by (rule map_of_snoc)
    then have stored: "map_of (query_cache (snd first)) key = Some ?kept"
      by (simp only: one snd_conv service_state.simps)
    then have "second = (?kept, snd first)"
      by (simp add: second_def key2 search_hit)
    with one stored None show ?thesis
      by (simp add: confidence_threshold_def)
  qed
qed

theorem repeated_lookup_hits_cache_witness:
  "py_strip (py_lower ''  Pump '') = py_strip (py_lower ''pump'') \<and>
   fst (search_knowledge_base (search_collaborator two_chunks) initial_state
          ''  Pump '' None (Some 3) None)
     = [chunk_of 0.9 ''Hold the reset button.''] \<and>
   fst (search_knowledge_base (search_collaborator two_chunks)
          (snd (search_knowledge_base (search_collaborator two_chunks) initial_state
                  ''  Pump '' None (Some 3) None))
          ''pump'' (Some []) (Some 3) (Some ''u1''))
     = [chunk_of 0.9 ''Hold the reset button.''] \<and>
   search_log (snd (search_knowledge_base (search_collaborator two_chunks)
          (snd (search_knowledge_base (search_collaborator two_chunks) initial_state
                  ''  Pump '' None (Some 3) None))
          ''pump'' (Some []) (Some 3) (Some ''u1'')))
     = [KnowledgeBaseSearch ''  Pump '' 3]"
proof -
  have norm: "py_strip (py_lower ''  Pump '') = py_strip (py_lower ''pump'')"
    by code_simp
  have scope: "scope_of None = scope_of (Some [])"
    by (simp add: scope_of_def)
  have depth: "depth_of ''  Pump '' (Some 3) = depth_of ''pump'' (Some 3)"
    by (simp add: depth_of_def)
  have cold: "map_of (query_cache initial_state)
      (cache_key_of None ''  Pump '' (depth_of ''  Pump '' (Some 3))) = None"
    by (simp add: initial_state_def)
  have kept: "filter (\<lambda>r. get_similarity_score r \<ge> 0.3)
      (case two_chunks (search_log initial_state)
              (search_call_of None ''  Pump '' (depth_of ''  Pump '' (Some 3)) None) of
         Inl e \<Rightarrow> [] | Inr rs \<Rightarrow> rs) = [chunk_of 0.9 ''Hold the reset button.'']"
    by (simp add: two_chunks_def chunk_of_def get_similarity_score_def)
  have call: "search_call_of None ''  Pump '' (depth_of ''  Pump '' (Some 3)) None
      = KnowledgeBaseSearch ''  Pump '' 3"
    by (simp add: search_call_of_def depth_of_def)
  note main = repeated_lookup_hits_cache [OF scope norm depth, of two_chunks initial_state
      None "Some ''u1''"]
  from main have same: "fst (search_knowledge_base (search_collaborator two_chunks)
          (snd (search_knowledge_base (search_collaborator two_chunks) initial_state
                  ''  Pump '' None (Some 3) None))
          ''pump'' (Some []) (Some 3) (Some ''u1''))
      = fst (search_knowledge_base (search_collaborator two_chunks) initial_state
          ''  Pump '' None (Some 3) None)"
    by (rule conjunct1)
  from main cold have calls: "search_log (snd (search_knowledge_base
          (search_collaborator two_chunks)
          (snd (search_knowledge_base (search_collaborator two_chunks) initial_state
                  ''  Pump '' None (Some 3) None))
          ''pump'' (Some []) (Some 3) (Some ''u1'')))
      = search_log initial_state
          @ [search_call_of None ''  Pump '' (depth_of ''  Pump '' (Some 3)) None]"
    by blast
  from main cold have one: "fst (search_knowledge_base (search_collaborator two_chunks)
          initial_state ''  Pump '' None (Some 3) None)
      = filter (\<lambda>r. get_similarity_score r \<ge> 0.3)
          (case two_chunks (search_log initial_state)
                  (search_call_of None ''  Pump '' (depth_of ''  Pump '' (Some 3)) None) of
             Inl e \<Rightarrow> [] | Inr rs \<Rightarrow> rs)"
    by blast
  have log: "search_log initial_state = []"
    by (simp add: initial_state_def)
  show ?thesis
    using same calls one kept call norm log by simp
qed

text \<open>
  C4. The cache of a reachable state never holds more than 100 entries. When it holds
  exactly 100 and a lookup stores a key that is not cached, the entry inserted first is
  removed, the new entry goes last and every other entry keeps its place: the evicted key
  is no longer cached.
\<close>

theorem cache_bounded_fifo:
  assumes "reachable vs s"
  shows "length (query_cache s) \<le> 100 \<and>
         (length (query_cache s) = 100 \<longrightarrow>
          map_of (query_cache s) (cache_key_of a q (depth_of q t)) = None \<longrightarrow>
          vs (search_log s) (search_call_of a q (depth_of q t) u) = Inr results \<longrightarrow>
            query_cache (snd (search_knowledge_base vs s q a t u))
              = tl (query_cache s)
                  @ [(cache_key_of a q (depth_of q t),
                      filter (\<lambda>r. get_similarity_score r \<ge> 0.3) results)] \<and>
            map_of (query_cache (snd (search_knowledge_base vs s q a t u)))
              (fst (hd (query_cache s))) = None)"
proof -
  have bound: "length (query_cache s) \<le> 100"
    using reachable_bound [OF assms] by (simp add: cache_max_size_def)
  have keys: "distinct (map fst (query_cache s))"
    using assms by (rule reachable_distinct)
  have "query_cache (snd (search_knowledge_base vs s q a t u))
          = tl (query_cache s)
              @ [(cache_key_of a q (depth_of q t),
                  filter (\<lambda>r. get_similarity_score r \<ge> 0.3) results)] \<and>
        map_of (query_cache (snd (search_knowledge_base vs s q a t u)))
          (fst (hd (query_cache s))) = None"
    if full: "length (query_cache s) = 100"
      and miss: "map_of (query_cache s) (cache_key_of a q (depth_of q t)) = None"
      and found: "vs (search_log s) (search_call_of a q (depth_of q t) u) = Inr results"
  proof -
    have nonempty: "query_cache s \<noteq> []"
      using full by auto
    have new: "query_cache (snd (search_knowledge_base vs s q a t u))
          = tl (query_cache s)
              @ [(cache_key_of a q (depth_of q t),
                  filter (\<lambda>r. get_similarity_score r \<ge> 0.3) results)]"
      using full
      by (simp add: search_miss [where vs = vs, OF miss found] cache_max_size_def
          confidence_threshold_def)
    show ?thesis
      unfolding new using evicted_key_gone [OF keys nonempty miss] new by simp
  qed
  with bound show ?thesis by blast
qed

theorem cache_bounded_fifo_witness:
  "reachable empty_search (warm 100) \<and>
   length (query_cache (warm 100)) = 100 \<and>
   fst (hd (query_cache (warm 100))) = cache_key_of None (fill_query 0) 3 \<and>
   query_cache (snd (search_knowledge_base empty_search (warm 100) ''q'' None (Some 3) None))
     = tl (query_cache (warm 100)) @ [(cache_key_of None ''q'' 3, [])] \<and>
   map_of (query_cache (snd (search_knowledge_base empty_search (warm 100) ''q'' None
                               (Some 3) None)))
     (cache_key_of None (fill_query 0) 3) = None"
proof -
  have cache: "query_cache (warm 100)
      = map (\<lambda>i. (cache_key_of None (fill_query i) 3, [])) [0..<100]"
    by (rule cache_warm) simp
  have full: "length (query_cache (warm 100)) = 100"
    by (simp add: cache)
  have first: "fst (hd (query_cache (warm 100))) = cache_key_of None (fill_query 0) 3"
    by (simp add: cache upt_rec [of 0 100])
  have depth: "depth_of ''q'' (Some 3) = 3"
    by (simp add: depth_of_def)
  have "py_strip (py_lower ''q'') = ''q''"
    by code_simp
  then have key: "cache_key_of None ''q'' 3 = ''global:'' @ ''q'' @ '':'' @ str_nat 3"
    by (simp add: cache_key_of_def scope_of_def)
  have other: "cache_key_of None ''q'' 3 \<noteq> cache_key_of None (fill_query i) 3" for i
  proof -
    have "''global:'' @ ''q'' @ '':'' @ str_nat 3
        \<noteq> ''global:'' @ fill_query i @ '':'' @ str_nat 3"
      by (simp add: fill_query_def)
    then show ?thesis
      by (simp add: key key_fill_query)
  qed
  have miss: "map_of (query_cache (warm 100))
      (cache_key_of None ''q'' (depth_of ''q'' (Some 3))) = None"
    by (simp add: depth cache map_of_eq_None_iff image_iff other)
  have found: "empty_search (search_log (warm 100))
      (search_call_of None ''q'' (depth_of ''q'' (Some 3)) None) = Inr []"
    by (simp add: empty_search_def)
  note main = cache_bounded_fifo [OF reachable_warm, of 100 None "''q''" "Some 3" None "[]"]
  from main full miss found
  have stored: "query_cache (snd (search_knowledge_base empty_search (warm 100) ''q'' None
          (Some 3) None))
      = tl (query_cache (warm 100))
          @ [(cache_key_of None ''q'' (depth_of ''q'' (Some 3)),
              filter (\<lambda>r. get_similarity_score r \<ge> 0.3) [])]"
    by blast
  from main full miss found
  have evicted: "map_of (query_cache (snd (search_knowledge_base empty_search (warm 100) ''q''
          None (Some 3) None))) (fst (hd (query_cache (warm 100)))) = None"
    by blast
  have e1: "query_cache (snd (search_knowledge_base empty_search (warm 100) ''q'' None
          (Some 3) None))
      = tl (query_cache (warm 100)) @ [(cache_key_of None ''q'' 3, [])]"
    using stored by (simp only: depth filter.simps)
  have e2: "map_of (query_cache (snd (search_knowledge_base empty_search (warm 100) ''q''
          None (Some 3) None))) (cache_key_of None (fill_query 0) 3) = None"
    using evicted by (simp only: first)
  show ?thesis
    using reachable_warm [of 100] full first e1 e2 by blast
qed

section \<open>Properties of the fallback answer\<close>



section \<open>Properties of the orchestration\<close>


lemma answer_inner_handler:
  assumes "web_step env m (if chunks \<noteq> [] then build_context chunks None else [])
             (evaluate_kb_confidence (arith env) chunks m) = Inr (web, web_links)"
    and "build_context chunks web \<noteq> []"
    and "llm env = Some invoke"
    and "llm_answer env invoke m aid h chunks web_links (build_context chunks web) = Inl e"
  shows "answer env m aid h chunks
           = Inr \<lparr>response = generate_fallback_response (build_context chunks web) m web_links,
                  sources = extract_sources chunks web_links,
                  chunks_found = length chunks\<rparr>"
proof -
  obtain t where inner: "llm_answer_traced env invoke m aid h chunks web_links
      (build_context chunks web) = (Inl e, t)"
    using assms(4)
    by (cases "llm_answer_traced env invoke m aid h chunks web_links (build_context chunks web)")
       (simp add: llm_answer_def)
  show ?thesis
  proof (cases "chunks = []")
    case True
    then show ?thesis
      using assms(1-3) inner
      by (simp add: answer_def answer_traced_def traced_def Let_def)
  next
    case False
    then show ?thesis
      using assms(1-3) inner
      by (simp add: answer_def answer_traced_def traced_def Let_def)
  qed
qed

lemma body_outcome:
  "fst (get_response_body env s m cid aid uid)
     = (case load_history env cid of
          Inl e \<Rightarrow> Inl e
        | Inr h \<Rightarrow>
            answer env m aid h
              (fst (search_knowledge_base (vector_search env) s m aid None uid)))"
  by (simp add: get_response_body_def get_response_body_traced_def answer_def
      case_prod_unfold Let_def split: sum.splits)

lemma get_response_of_answer:
  assumes "load_history env cid = Inr h"
    and "answer env m aid h
           (fst (search_knowledge_base (vector_search env) s m aid None uid)) = Inr r"
  shows "fst (get_response env s m cid aid uid) = Inr r"
proof -
  have "fst (get_response_body env s m cid aid uid) = Inr r"
    using assms by (simp add: body_outcome)
  then show ?thesis
    by (cases "get_response_body env s m cid aid uid") (simp add: get_response_def)
qed

lemma llm_answer_calls:
  "list_all (\<lambda>call. call_chunks call = chunks)
     (snd (llm_answer_traced env invoke m aid h chunks web_links context))"
  by (simp add: llm_answer_traced_def traced_def split: sum.splits)

lemma answer_calls:
  "list_all (\<lambda>call. call_chunks call = chunks) (snd (answer_traced env m aid h chunks))"
  using llm_answer_calls [of chunks env _ m aid h]
  by (auto simp: answer_traced_def traced_def Let_def case_prod_unfold
      split: sum.splits option.splits)

lemma answer_calls_evaluator:
  "ConfidenceEvaluator chunks \<in> set (snd (answer_traced env m aid h chunks))"
  by (auto simp: answer_traced_def traced_def Let_def case_prod_unfold
      split: sum.splits option.splits)

lemma get_response_calls_eq:
  "get_response_calls env s m cid aid uid
     = (case load_history env cid of
          Inl e \<Rightarrow> []
        | Inr h \<Rightarrow>
            snd (answer_traced env m aid h
                   (fst (search_knowledge_base (vector_search env) s m aid None uid))))"
  by (simp add: get_response_calls_def get_response_body_traced_def case_prod_unfold
      Let_def split: sum.splits)

subsection \<open>The example call\<close>

lemma example_retrieval:
  assumes "vector_search env = two_chunks"
  shows "fst (search_knowledge_base (vector_search env) initial_state ''pump'' None None None)
           = [chunk_of 0.9 ''Hold the reset button.'']"
proof -
  have depth: "depth_of ''pump'' None = 3"
    by code_simp
  have miss: "map_of (query_cache initial_state)
      (cache_key_of None ''pump'' (depth_of ''pump'' None)) = None"
    by (simp add: initial_state_def)
  have found: "vector_search env (search_log initial_state)
      (search_call_of None ''pump'' (depth_of ''pump'' None) None)
      = Inr [chunk_of 0.9 ''Hold the reset button.'', chunk_of 0.1 ''Unrelated.'']"
    by (simp add: assms two_chunks_def)
  show ?thesis
    by (simp add: search_miss [where vs = "vector_search env", OF miss found]
        chunk_of_def get_similarity_score_def confidence_threshold_def)
qed

lemma example_context: "build_context [chunk_of 0.9 ''Hold the reset button.''] None \<noteq> []"
  by (simp add: build_context_def)

lemma example_web_step:
  assumes "web_search_tool env = False"
  shows "web_step env ''pump''
      (if [chunk_of 0.9 ''Hold the reset button.''] \<noteq> []
       then build_context [chunk_of 0.9 ''Hold the reset button.''] None else [])
      (evaluate_kb_confidence (arith env) [chunk_of 0.9 ''Hold the reset button.''] ''pump'')
      = Inr (None, [])"
  by (simp add: web_step_def assms)

section \<open>Properties of the Answer Orchestrator\<close>

text \<open>
  C7. In every reachable state, the list \<open>_search_knowledge_base\<close> returns, fetched or
  served from the cache, holds only chunks whose similarity score is at least 0.3.
  Consequently every call of the Confidence Evaluator, of the Context Assembler and of the
  extraction of sources that \<open>get_response\<close> makes receives only chunks that score at
  least 0.3: each of these calls receives the retrieved list itself, and the Confidence
  Evaluator is called whenever the history loads.
\<close>

theorem retrieved_chunks_above_threshold:
  assumes "reachable (vector_search env) s"
  shows "list_all (\<lambda>c. get_similarity_score c \<ge> 0.3)
           (fst (search_knowledge_base (vector_search env) s query agent_id top_k user_id)) \<and>
         list_all (\<lambda>call. list_all (\<lambda>c. get_similarity_score c \<ge> 0.3) (call_chunks call))
           (get_response_calls env s message conversation_id agent_id user_id) \<and>
         list_all (\<lambda>call. call_chunks call
                      = fst (search_knowledge_base (vector_search env) s message agent_id None
                               user_id))
           (get_response_calls env s message conversation_id agent_id user_id) \<and>
         (\<forall>h. load_history env conversation_id = Inr h \<longrightarrow>
              ConfidenceEvaluator
                (fst (search_knowledge_base (vector_search env) s message agent_id None
                        user_id))
                \<in> set (get_response_calls env s message conversation_id agent_id user_id))"
proof -
  let ?retrieved = "fst (search_knowledge_base (vector_search env) s message agent_id None
                           user_id)"
  let ?calls = "get_response_calls env s message conversation_id agent_id user_id"
  have inv: "cache_filtered s"
    using assms by (rule reachable_filtered)
  have kept: "list_all (\<lambda>c. get_similarity_score c \<ge> 0.3)
      (fst (search_knowledge_base (vector_search env) s q a t u))" for q a t u
    using search_filtered [OF inv, of "vector_search env" q a t u]
    by (simp add: confidence_threshold_def)
  have same: "list_all (\<lambda>call. call_chunks call = ?retrieved) ?calls"
    using answer_calls [of ?retrieved env message agent_id]
    by (simp add: get_response_calls_eq split: sum.splits)
  have evaluator: "\<forall>h. load_history env conversation_id = Inr h
      \<longrightarrow> ConfidenceEvaluator ?retrieved \<in> set ?calls"
    using answer_calls_evaluator [of ?retrieved env message agent_id]
    by (simp add: get_response_calls_eq)
  have "list_all (\<lambda>call. list_all (\<lambda>c. get_similarity_score c \<ge> 0.3) (call_chunks call))
      ?calls"
    using same kept [of message agent_id None user_id]
    by (auto simp: list_all_iff)
  then show ?thesis
    using kept same evaluator by blast
qed

theorem retrieved_chunks_above_threshold_witness:
  "reachable (vector_search example_env) initial_state \<and>
   get_response_calls example_env initial_state ''pump'' None None None
     = [ContextAssembler [chunk_of 0.9 ''Hold the reset button.''],
        ConfidenceEvaluator [chunk_of 0.9 ''Hold the reset button.''],
        ContextAssembler [chunk_of 0.9 ''Hold the reset button.''],
        SourceExtraction [chunk_of 0.9 ''Hold the reset button.'']] \<and>
   list_all (\<lambda>call. list_all (\<lambda>c. get_similarity_score c \<ge> 0.3) (call_chunks call))
     (get_response_calls example_env initial_state ''pump'' None None None)"
proof -
  have r: "reachable (vector_search example_env) initial_state"
    by (rule reachable_init)
  have retrieved: "fst (search_knowledge_base (vector_search example_env) initial_state
      ''pump'' None None None) = [chunk_of 0.9 ''Hold the reset button.'']"
    by (rule example_retrieval) (simp add: example_env_def)
  have web: "web_step example_env ''pump''
      (if [chunk_of 0.9 ''Hold the reset button.''] \<noteq> []
       then build_context [chunk_of 0.9 ''Hold the reset button.''] None else [])
      (evaluate_kb_confidence (arith example_env) [chunk_of 0.9 ''Hold the reset button.'']
         ''pump'')
      = Inr (None, [])"
    by (rule example_web_step) (simp add: example_env_def)
  have inner: "llm_answer_traced example_env blank_llm ''pump'' None []
      [chunk_of 0.9 ''Hold the reset button.''] []
      (build_context [chunk_of 0.9 ''Hold the reset button.''] None)
      = (Inr \<lparr>response = generate_fallback_response
                           (build_context [chunk_of 0.9 ''Hold the reset button.''] None)
                           ''pump'' [],
              sources = extract_sources [chunk_of 0.9 ''Hold the reset button.''] [],
              chunks_found = 1\<rparr>,
         [SourceExtraction [chunk_of 0.9 ''Hold the reset button.'']])"
    by (simp add: llm_answer_traced_def traced_def agent_instructions_of_def blank_llm_def
        py_strip_def py_isspace_def)
  have model: "llm example_env = Some blank_llm"
    by (simp add: example_env_def)
  have calls: "snd (answer_traced example_env ''pump'' None []
      [chunk_of 0.9 ''Hold the reset button.''])
      = [ContextAssembler [chunk_of 0.9 ''Hold the reset button.''],
         ConfidenceEvaluator [chunk_of 0.9 ''Hold the reset button.''],
         ContextAssembler [chunk_of 0.9 ''Hold the reset button.''],
         SourceExtraction [chunk_of 0.9 ''Hold the reset button.'']]"
    using web
    by (simp add: answer_traced_def traced_def Let_def example_context model inner)
  have all: "get_response_calls example_env initial_state ''pump'' None None None
      = [ContextAssembler [chunk_of 0.9 ''Hold the reset button.''],
         ConfidenceEvaluator [chunk_of 0.9 ''Hold the reset button.''],
         ContextAssembler [chunk_of 0.9 ''Hold the reset button.''],
         SourceExtraction [chunk_of 0.9 ''Hold the reset button.'']]"
    by (simp add: get_response_calls_eq load_history_def retrieved calls)
  have "list_all (\<lambda>call. list_all (\<lambda>c. get_similarity_score c \<ge> 0.3) (call_chunks call))
     (get_response_calls example_env initial_state ''pump'' None None None)"
    using retrieved_chunks_above_threshold [OF r, of "''pump''" None None None "''pump''" None]
    by blast
  with r all show ?thesis by blast
qed

text \<open>
  C5, as stated, fails: an exception raised by the call of the language model is an
  exception of an inner step, but the handler of the inner \<open>try\<close> catches it and
  \<open>get_response\<close> returns the fallback answer of step 5 with \<open>chunks_found\<close> 1, not the
  apology with \<open>chunks_found\<close> 0.
\<close>

theorem llm_exception_gives_fallback_counterexample:
  "llm llm_down_env = Some failing_llm \<and>
   fst (get_response llm_down_env initial_state ''pump'' None None None)
     = Inr \<lparr>response = generate_fallback_response
                          (build_context [chunk_of 0.9 ''Hold the reset button.''] None)
                          ''pump'' [],
            sources = [], chunks_found = 1\<rparr>"
proof -
  have chunks: "fst (search_knowledge_base (vector_search llm_down_env) initial_state ''pump''
      None None None) = [chunk_of 0.9 ''Hold the reset button.'']"
    by (rule example_retrieval) (simp add: llm_down_env_def example_env_def)
  have hist: "load_history llm_down_env None = Inr []"
    by (simp add: load_history_def)
  have web: "web_step llm_down_env ''pump''
      (if [chunk_of 0.9 ''Hold the reset button.''] \<noteq> []
       then build_context [chunk_of 0.9 ''Hold the reset button.''] None else [])
      (evaluate_kb_confidence (arith llm_down_env) [chunk_of 0.9 ''Hold the reset button.'']
         ''pump'')
      = Inr (None, [])"
    by (rule example_web_step) (simp add: llm_down_env_def example_env_def)
  have model: "llm llm_down_env = Some failing_llm"
    by (simp add: llm_down_env_def)
  have raised: "llm_answer llm_down_env failing_llm ''pump'' None []
      [chunk_of 0.9 ''Hold the reset button.''] []
      (build_context [chunk_of 0.9 ''Hold the reset button.''] None) = Inl (Error ''timeout'')"
    by (simp add: llm_answer_def llm_answer_traced_def agent_instructions_of_def
        failing_llm_def)
  have none: "extract_sources [chunk_of 0.9 ''Hold the reset button.''] [] = []"
    by (simp add: extract_sources_def get_filename_def chunk_of_def)
  have "answer llm_down_env ''pump'' None [] [chunk_of 0.9 ''Hold the reset button.'']
      = Inr \<lparr>response = generate_fallback_response
                          (build_context [chunk_of 0.9 ''Hold the reset button.''] None)
                          ''pump'' [],
             sources = [], chunks_found = 1\<rparr>"
    using answer_inner_handler [OF web example_context model raised] by (simp add: none)
  then have "fst (get_response llm_down_env initial_state ''pump'' None None None)
      = Inr \<lparr>response = generate_fallback_response
                          (build_context [chunk_of 0.9 ''Hold the reset button.''] None)
                          ''pump'' [],
             sources = [], chunks_found = 1\<rparr>"
    using get_response_of_answer [OF hist, of "''pump''" None initial_state None]
    by (simp add: chunks)
  with model show ?thesis by simp
qed

text \<open>
  C5, amended. Whatever the inputs and whatever an inner step raises, \<open>get_response\<close>
  returns a response and raises nothing. An exception that leaves the body of its outer
  \<open>try\<close> is turned into the response with the fixed apology, no sources and
  \<open>chunks_found\<close> 0; an exception of the agent lookup or of the language model call is caught
  by the inner handler and answered with the fallback response.
\<close>

theorem get_response_never_raises:
  "(\<exists>r. fst (get_response env s message conversation_id agent_id user_id) = Inr r) \<and>
   (\<forall>e. fst (get_response_body env s message conversation_id agent_id user_id) = Inl e \<longrightarrow>
        fst (get_response env s message conversation_id agent_id user_id)
          = Inr \<lparr>response = ''I apologize, but I encountered an error while processing your request. Please try again.'',
                 sources = [], chunks_found = 0\<rparr>) \<and>
   (\<forall>e h chunks web web_links invoke.
        web_step env message (if chunks \<noteq> [] then build_context chunks None else [])
          (evaluate_kb_confidence (arith env) chunks message) = Inr (web, web_links) \<longrightarrow>
        build_context chunks web \<noteq> [] \<longrightarrow>
        llm env = Some invoke \<longrightarrow>
        llm_answer env invoke message agent_id h chunks web_links (build_context chunks web)
          = Inl e \<longrightarrow>
        answer env message agent_id h chunks
          = Inr \<lparr>response =
                   generate_fallback_response (build_context chunks web) message web_links,
                 sources = extract_sources chunks web_links,
                 chunks_found = length chunks\<rparr>)"
proof -
  have outer: "(\<exists>r. fst (get_response env s message conversation_id agent_id user_id) = Inr r) \<and>
   (\<forall>e. fst (get_response_body env s message conversation_id agent_id user_id) = Inl e \<longrightarrow>
        fst (get_response env s message conversation_id agent_id user_id)
          = Inr \<lparr>response = ''I apologize, but I encountered an error while processing your request. Please try again.'',
                 sources = [], chunks_found = 0\<rparr>)"
  proof (cases "get_response_body env s message conversation_id agent_id user_id")
    case (Pair outcome s1)
    then show ?thesis
      by (cases outcome) (simp_all add: get_response_def error_response_def)
  qed
  show ?thesis
    using outer answer_inner_handler by blast
qed

theorem get_response_never_raises_witness:
  "fst (get_response_body example_env initial_state ''pump'' (Some ''c1'') None None)
     = Inl (Error ''store down'') \<and>
   fst (get_response example_env initial_state ''pump'' (Some ''c1'') None None)
     = Inr \<lparr>response = ''I apologize, but I encountered an error while processing your request. Please try again.'',
            sources = [], chunks_found = 0\<rparr>"
proof -
  have body: "fst (get_response_body example_env initial_state ''pump'' (Some ''c1'') None None)
     = Inl (Error ''store down'')"
    by (simp add: body_outcome load_history_def example_env_def store_down_def)
  show ?thesis
    using get_response_never_raises [of example_env initial_state "''pump''" "Some ''c1''"
        None None] body
    by simp
qed



end
